theory Spec2Isabelle
  imports Main
begin

section \<open>Python values\<close>

text \<open>
  A Python \<^verbatim>\<open>str\<close> is a sequence of Unicode code points; \<open>lit\<close> reads an ASCII
  literal of the source as such a sequence.
\<close>

type_synonym pystr = "nat list"

abbreviation lit :: "string \<Rightarrow> pystr" where
  "lit s \<equiv> map of_char s"

text \<open>\<^verbatim>\<open>str.isspace\<close> on one character: the code points Python 3 treats as whitespace.\<close>

definition isspace :: "nat \<Rightarrow> bool" where
  "isspace c \<longleftrightarrow>
     (9 \<le> c \<and> c \<le> 13) \<or> (28 \<le> c \<and> c \<le> 32) \<or> c = 133 \<or> c = 160 \<or> c = 5760 \<or>
     (8192 \<le> c \<and> c \<le> 8202) \<or> c = 8232 \<or> c = 8233 \<or> c = 8239 \<or> c = 8287 \<or> c = 12288"

text \<open>\<^verbatim>\<open>s.strip()\<close>: leading and trailing whitespace removed.\<close>

definition strip :: "pystr \<Rightarrow> pystr" where
  "strip s = rev (dropWhile isspace (rev (dropWhile isspace s)))"

text \<open>\<^verbatim>\<open>sep.join(xs)\<close>.\<close>

fun join :: "pystr \<Rightarrow> pystr list \<Rightarrow> pystr" where
  "join sep [] = []"
| "join sep [x] = x"
| "join sep (x # y # ys) = x @ sep @ join sep (y # ys)"

text \<open>
  Exceptions. Everything the external libraries raise derives from \<^verbatim>\<open>Exception\<close> and
  is caught by \<^verbatim>\<open>except Exception\<close>; the payload is what \<^verbatim>\<open>str(e)\<close> prints.
  \<open>AttributeError\<close> is the one exception the agent's own code raises (an attribute of
  \<^verbatim>\<open>None\<close>); \<open>UnicodeEncodeError\<close> is what \<^verbatim>\<open>print\<close> raises on a string its stream
  cannot encode. Both derive from \<^verbatim>\<open>Exception\<close>. Interrupts (\<^verbatim>\<open>KeyboardInterrupt\<close>,
  \<^verbatim>\<open>SystemExit\<close>) are not modelled.
\<close>

datatype exn = Exception pystr | AttributeError pystr | UnicodeEncodeError pystr

fun str :: "exn \<Rightarrow> pystr" where
  "str (Exception m) = m"
| "str (AttributeError m) = m"
| "str (UnicodeEncodeError m) = m"

text \<open>The result dictionary \<^verbatim>\<open>{"type": ..., "message": ...}\<close>.\<close>

record response =
  type :: pystr
  message :: pystr

text \<open>The pydantic schemas of the structured-output calls (all fields are \<^verbatim>\<open>str\<close>).\<close>

record Keywords =
  keywords' :: "pystr list"

record ResearchQueryType =
  category :: pystr

record RouteQuery =
  destination :: pystr

section \<open>External capabilities\<close>

text \<open>A handle to a Chroma vector store.\<close>

datatype chroma = Chroma nat

text \<open>
  Every call that leaves the agent's own code is recorded, in order, with the argument
  the code passes; \<open>Print\<close> is a line written with \<^verbatim>\<open>print\<close>.
\<close>

datatype call =
    FitzOpen pystr
  | DocxDocument pystr
  | CreateDocuments pystr
  | ChromaFromDocuments "pystr list"
  | ClassifyChain pystr
  | SummarizeChain "pystr list"
  | AbstractChain pystr
  | KeywordsChain pystr
  | QAChain chroma pystr
  | RouteChain pystr
  | Print pystr

text \<open>
  The libraries and services the agents call are parameters of the model. Each one
  answers from the calls made so far and its argument, and either raises or returns, so
  a capability may answer the same request differently at different times.
  \<^item> \<open>path_exists\<close>: \<^verbatim>\<open>os.path.exists("backend/vector_store")\<close> when the agent is built;
  \<^item> \<open>chat_groq\<close>: the \<^verbatim>\<open>ChatGroq(...)\<close> constructor;
  \<^item> \<open>chroma_open\<close>: \<^verbatim>\<open>Chroma(persist_directory=..., embedding_function=...)\<close>;
  \<^item> \<open>fitz_open\<close>: \<^verbatim>\<open>fitz.open\<close>, the pages' \<^verbatim>\<open>get_text()\<close> and \<^verbatim>\<open>close\<close>;
  \<^item> \<open>docx_document\<close>: \<^verbatim>\<open>Document(file_path)\<close> and the paragraphs' texts;
  \<^item> \<open>create_documents\<close>: \<^verbatim>\<open>RecursiveCharacterTextSplitter(chunk_size=1000,
    chunk_overlap=100).create_documents([full_text])\<close>, as the chunks' \<^verbatim>\<open>page_content\<close>;
  \<^item> \<open>chroma_from_documents\<close>: \<^verbatim>\<open>HuggingFaceEmbeddings\<close> and \<^verbatim>\<open>Chroma.from_documents\<close>;
  \<^item> \<open>classify_chain\<close>, \<open>keywords_chain\<close>, \<open>route_chain\<close>: the structured-output chains;
  \<^item> \<open>summarize_chain\<close>: the map-reduce chain, built and invoked, \<^verbatim>\<open>result["output_text"]\<close>;
  \<^item> \<open>abstract_chain\<close>: \<^verbatim>\<open>prompt | llm\<close>, \<^verbatim>\<open>result.content\<close>;
  \<^item> \<open>qa_chain\<close>: the \<^verbatim>\<open>ConversationalRetrievalChain\<close> over the store's retriever,
    built and invoked with an empty chat history, \<^verbatim>\<open>result["answer"]\<close>;
  \<^item> \<open>stdout\<close>: \<^verbatim>\<open>print(line)\<close>, which writes the line to standard output or raises
    (a character the stream cannot encode, a closed stream).
\<close>

record capabilities =
  path_exists :: bool
  chat_groq :: "exn + unit"
  chroma_open :: "exn + chroma"
  fitz_open :: "call list \<Rightarrow> pystr \<Rightarrow> exn + pystr list"
  docx_document :: "call list \<Rightarrow> pystr \<Rightarrow> exn + pystr list"
  create_documents :: "call list \<Rightarrow> pystr \<Rightarrow> exn + pystr list"
  chroma_from_documents :: "call list \<Rightarrow> pystr list \<Rightarrow> exn + chroma"
  classify_chain :: "call list \<Rightarrow> pystr \<Rightarrow> exn + ResearchQueryType"
  summarize_chain :: "call list \<Rightarrow> pystr list \<Rightarrow> exn + pystr"
  abstract_chain :: "call list \<Rightarrow> pystr \<Rightarrow> exn + pystr"
  keywords_chain :: "call list \<Rightarrow> pystr \<Rightarrow> exn + Keywords"
  qa_chain :: "call list \<Rightarrow> chroma \<Rightarrow> pystr \<Rightarrow> exn + pystr"
  route_chain :: "call list \<Rightarrow> pystr \<Rightarrow> exn + RouteQuery"
  stdout :: "call list \<Rightarrow> pystr \<Rightarrow> exn + unit"

section \<open>ResearchAgent\<close>

text \<open>The instance's mutable fields.\<close>

record agent =
  vector_db :: "chroma option"
  docs :: "pystr list"

text \<open>\<^verbatim>\<open>ResearchAgent.__init__\<close>: raises, or returns the new instance.\<close>

definition init :: "capabilities \<Rightarrow> exn + agent" where
  "init w =
     (case chat_groq w of
        Inl e \<Rightarrow> Inl e
      | Inr _ \<Rightarrow>
          if path_exists w then
            (case chroma_open w of
               Inl e \<Rightarrow> Inl e
             | Inr db \<Rightarrow> Inr \<lparr>vector_db = Some db, docs = []\<rparr>)
          else Inr \<lparr>vector_db = None, docs = []\<rparr>)"

text \<open>
  \<^verbatim>\<open>ingest_document\<close>, lines 57 to 66: the text of the file, an exception, or
  \<open>None\<close> for the \<^verbatim>\<open>else\<close> branch of an unsupported type.
\<close>

definition full_text ::
  "capabilities \<Rightarrow> call list \<Rightarrow> pystr \<Rightarrow> pystr \<Rightarrow> ((exn + pystr) \<times> call list) option" where
  "full_text w h file_path file_type =
     (if file_type = lit ''pdf'' then
        Some (case fitz_open w h file_path of
                Inl e \<Rightarrow> Inl e
              | Inr pages \<Rightarrow> Inr (join [] pages),
              h @ [FitzOpen file_path])
      else if file_type = lit ''docx'' then
        Some (case docx_document w h file_path of
                Inl e \<Rightarrow> Inl e
              | Inr paragraphs \<Rightarrow> Inr (join [10] paragraphs),
              h @ [DocxDocument file_path])
      else None)"

text \<open>
  The body of the \<^verbatim>\<open>try\<close> of \<^verbatim>\<open>ingest_document\<close>: what it returns or raises, the
  instance as the body leaves it, and the calls made.
\<close>

definition ingest_try ::
  "capabilities \<Rightarrow> call list \<Rightarrow> agent \<Rightarrow> pystr \<Rightarrow> pystr \<Rightarrow> (exn + response) \<times> agent \<times> call list" where
  "ingest_try w h a file_path file_type =
     (case full_text w h file_path file_type of
        None \<Rightarrow> (Inr \<lparr>type = lit ''text'', message = lit ''Unsupported file type.''\<rparr>, a, h)
      | Some (Inl e, h1) \<Rightarrow> (Inl e, a, h1)
      | Some (Inr txt, h1) \<Rightarrow>
          if strip txt = [] then
            (Inr \<lparr>type = lit ''text'', message = lit ''The document is empty.''\<rparr>, a, h1)
          else
            (case create_documents w h1 txt of
               Inl e \<Rightarrow> (Inl e, a, h1 @ [CreateDocuments txt])
             | Inr chunks \<Rightarrow>
                 let a1 = a\<lparr>docs := chunks\<rparr>;
                     h2 = h1 @ [CreateDocuments txt]
                 in (case chroma_from_documents w h2 (docs a1) of
                       Inl e \<Rightarrow> (Inl e, a1, h2 @ [ChromaFromDocuments (docs a1)])
                     | Inr db \<Rightarrow>
                         (Inr \<lparr>type = lit ''text'',
                               message = lit ''Document ingested and ready for analysis.''\<rparr>,
                          a1\<lparr>vector_db := Some db\<rparr>,
                          h2 @ [ChromaFromDocuments (docs a1)]))))"

text \<open>
  \<^verbatim>\<open>ingest_document\<close>: the \<^verbatim>\<open>try\<close> with its \<^verbatim>\<open>except Exception\<close> handler. The
  handler prints (line 84) before it returns (line 85); an exception of that
  \<^verbatim>\<open>print\<close> is inside no \<^verbatim>\<open>try\<close> and leaves the method.
\<close>

definition ingest_document ::
  "capabilities \<Rightarrow> call list \<Rightarrow> agent \<Rightarrow> pystr \<Rightarrow> pystr \<Rightarrow> (exn + response) \<times> agent \<times> call list" where
  "ingest_document w h a file_path file_type =
     (case ingest_try w h a file_path file_type of
        (Inl e, a', h') \<Rightarrow>
          let line = lit ''Error during document ingestion: '' @ str e
          in (case stdout w h' line of
                Inl e' \<Rightarrow> Inl e'
              | Inr _ \<Rightarrow>
                  Inr \<lparr>type = lit ''text'',
                       message = lit ''Error ingesting the document: '' @ str e\<rparr>,
              a', h' @ [Print line])
      | (Inr r, a', h') \<Rightarrow> (Inr r, a', h'))"

text \<open>The four strategies. None of them assigns a field of the instance.\<close>

definition summarize_paper ::
  "capabilities \<Rightarrow> call list \<Rightarrow> agent \<Rightarrow> (exn + response) \<times> call list" where
  "summarize_paper w h a =
     (case summarize_chain w h (docs a) of
        Inl e \<Rightarrow> Inl e
      | Inr output_text \<Rightarrow> Inr \<lparr>type = lit ''text'', message = output_text\<rparr>,
      h @ [SummarizeChain (docs a)])"

definition summarize_abstract ::
  "capabilities \<Rightarrow> call list \<Rightarrow> agent \<Rightarrow> (exn + response) \<times> call list" where
  "summarize_abstract w h a =
     (case docs a of
        [] \<Rightarrow> (Inr \<lparr>type = lit ''text'', message = lit ''No document content available.''\<rparr>, h)
      | page_content # _ \<Rightarrow>
          (case abstract_chain w h page_content of
             Inl e \<Rightarrow> Inl e
           | Inr content \<Rightarrow> Inr \<lparr>type = lit ''text'', message = content\<rparr>,
           h @ [AbstractChain page_content]))"

definition extract_keywords ::
  "capabilities \<Rightarrow> call list \<Rightarrow> agent \<Rightarrow> (exn + response) \<times> call list" where
  "extract_keywords w h a =
     (if docs a = [] then
        (Inr \<lparr>type = lit ''text'', message = lit ''No document content available.''\<rparr>, h)
      else
        let text_for_keywords = join (lit '' '') (take 4 (docs a))
        in (case keywords_chain w h text_for_keywords of
              Inl e \<Rightarrow> Inl e
            | Inr result \<Rightarrow>
                Inr \<lparr>type = lit ''text'', message = join (lit '', '') (keywords' result)\<rparr>,
            h @ [KeywordsChain text_for_keywords]))"

text \<open>
  \<^verbatim>\<open>answer_question\<close> reads \<^verbatim>\<open>self.vector_db.as_retriever()\<close> first: on \<^verbatim>\<open>None\<close> that is
  an \<^verbatim>\<open>AttributeError\<close>, before any chain is built.
\<close>

definition answer_question ::
  "capabilities \<Rightarrow> call list \<Rightarrow> agent \<Rightarrow> pystr \<Rightarrow> (exn + response) \<times> call list" where
  "answer_question w h a question =
     (case vector_db a of
        None \<Rightarrow>
          (Inl (AttributeError
                  ([39] @ lit ''NoneType'' @ [39] @ lit '' object has no attribute '' @
                   [39] @ lit ''as_retriever'' @ [39])), h)
      | Some db \<Rightarrow>
          (case qa_chain w h db question of
             Inl e \<Rightarrow> Inl e
           | Inr answer \<Rightarrow> Inr \<lparr>type = lit ''text'', message = answer\<rparr>,
           h @ [QAChain db question]))"

text \<open>
  \<^verbatim>\<open>handle_query\<close>. The \<^verbatim>\<open>try\<close> encloses the classification and the dispatched
  strategy (lines 111 to 121); its handler (lines 123 to 125) prints and then calls
  \<^verbatim>\<open>answer_question\<close>, both outside any \<^verbatim>\<open>try\<close>.
\<close>

definition handle_query ::
  "capabilities \<Rightarrow> call list \<Rightarrow> agent \<Rightarrow> pystr \<Rightarrow> (exn + response) \<times> call list" where
  "handle_query w h a query =
     (if vector_db a = None then
        (Inr \<lparr>type = lit ''text'', message = lit ''No document has been ingested yet.''\<rparr>, h)
      else
        let h1 = h @ [ClassifyChain query]
        in (case (case classify_chain w h query of
                    Inl e \<Rightarrow> (Inl e, h1)
                  | Inr query_type \<Rightarrow>
                      if category query_type = lit ''summary'' then summarize_paper w h1 a
                      else if category query_type = lit ''keywords'' then extract_keywords w h1 a
                      else if category query_type = lit ''abstract'' then summarize_abstract w h1 a
                      else answer_question w h1 a query) of
              (Inl e, h2) \<Rightarrow>
                let line = lit ''Error classifying research query: '' @ str e @
                             lit ''. Defaulting to Q&A.''
                in (case stdout w h2 line of
                      Inl e' \<Rightarrow> (Inl e', h2 @ [Print line])
                    | Inr _ \<Rightarrow> answer_question w (h2 @ [Print line]) a query)
            | (Inr r, h2) \<Rightarrow> (Inr r, h2)))"

section \<open>OrchestrationAgent\<close>

text \<open>
  The body of the \<^verbatim>\<open>try\<close> of \<^verbatim>\<open>route_query\<close> (lines 48 to 53), on an instance whose
  chain the constructor has built: the chain is invoked, two lines are printed, and the
  destination of the response is returned as it is.
\<close>

definition route_try ::
  "capabilities \<Rightarrow> call list \<Rightarrow> pystr \<Rightarrow> (exn + pystr) \<times> call list" where
  "route_try w h query =
     (let h1 = h @ [RouteChain query]
      in (case route_chain w h query of
            Inl e \<Rightarrow> (Inl e, h1)
          | Inr response \<Rightarrow>
              let line1 = lit ''[OrchestrationAgent] Query: '' @ query;
                  h2 = h1 @ [Print line1]
              in (case stdout w h1 line1 of
                    Inl e \<Rightarrow> (Inl e, h2)
                  | Inr _ \<Rightarrow>
                      let line2 = lit ''[OrchestrationAgent] Routed to: '' @ destination response;
                          h3 = h2 @ [Print line2]
                      in (case stdout w h2 line2 of
                            Inl e \<Rightarrow> (Inl e, h3)
                          | Inr _ \<Rightarrow> (Inr (destination response), h3)))))"

text \<open>
  \<^verbatim>\<open>route_query\<close>: the \<^verbatim>\<open>try\<close> with its handler (lines 54 to 56), which prints and
  then returns \<^verbatim>\<open>"research"\<close>.
\<close>

definition route_query ::
  "capabilities \<Rightarrow> call list \<Rightarrow> pystr \<Rightarrow> (exn + pystr) \<times> call list" where
  "route_query w h query =
     (case route_try w h query of
        (Inl e, h') \<Rightarrow>
          let line = lit ''Error routing query: '' @ str e
          in (case stdout w h' line of
                Inl e' \<Rightarrow> Inl e'
              | Inr _ \<Rightarrow> Inr (lit ''research''),
              h' @ [Print line])
      | (Inr label, h') \<Rightarrow> (Inr label, h'))"

section \<open>Stub capabilities\<close>

text \<open>
  Standard output as a UTF-8 stream with strict error handling: a string holding a
  surrogate code point (U+D800 to U+DFFF) cannot be encoded.
\<close>

definition utf8_stdout :: "call list \<Rightarrow> pystr \<Rightarrow> exn + unit" where
  "utf8_stdout h s =
     (if list_ex (\<lambda>c. 55296 \<le> c \<and> c \<le> 57343) s
      then Inl (UnicodeEncodeError (lit ''surrogates not allowed''))
      else Inr ())"

text \<open>
  A world in which nothing is persisted, standard output is such a stream and every
  other capability is unavailable.
\<close>

definition unavailable :: capabilities where
  "unavailable =
     \<lparr>path_exists = False,
      chat_groq = Inr (),
      chroma_open = Inl (Exception (lit ''unavailable'')),
      fitz_open = (\<lambda>h p. Inl (Exception (lit ''unavailable''))),
      docx_document = (\<lambda>h p. Inl (Exception (lit ''unavailable''))),
      create_documents = (\<lambda>h t. Inl (Exception (lit ''unavailable''))),
      chroma_from_documents = (\<lambda>h ds. Inl (Exception (lit ''unavailable''))),
      classify_chain = (\<lambda>h q. Inl (Exception (lit ''unavailable''))),
      summarize_chain = (\<lambda>h ds. Inl (Exception (lit ''unavailable''))),
      abstract_chain = (\<lambda>h t. Inl (Exception (lit ''unavailable''))),
      keywords_chain = (\<lambda>h t. Inl (Exception (lit ''unavailable''))),
      qa_chain = (\<lambda>h db q. Inl (Exception (lit ''unavailable''))),
      route_chain = (\<lambda>h q. Inl (Exception (lit ''unavailable''))),
      stdout = utf8_stdout\<rparr>"

text \<open>A PDF whose three pages hold only whitespace (space, newline, no-break space, tab).\<close>

definition blank_pdf :: capabilities where
  "blank_pdf = unavailable\<lparr>fitz_open := (\<lambda>h p. Inr [[32, 10], [], [160, 9]])\<rparr>"

text \<open>
  The classifier answers \<^verbatim>\<open>summary\<close>, the map-reduce chain fails, the retrieval chain
  answers.
\<close>

definition summary_fails :: capabilities where
  "summary_fails = unavailable
     \<lparr>classify_chain := (\<lambda>h q. Inr \<lparr>category = lit ''summary''\<rparr>),
      summarize_chain := (\<lambda>h ds. Inl (Exception (lit ''generation failed''))),
      qa_chain := (\<lambda>h db q. Inr (lit ''an answer''))\<rparr>"

text \<open>
  A one-page PDF is extracted and split into one chunk; embedding and indexing are
  unavailable.
\<close>

definition index_fails :: capabilities where
  "index_fails = unavailable
     \<lparr>fitz_open := (\<lambda>h p. Inr [lit ''new text'']),
      create_documents := (\<lambda>h t. Inr [t])\<rparr>"

text \<open>
  The directory of the vector store exists when the agent is built; the classifier
  answers \<^verbatim>\<open>question\<close> and the retrieval chain answers.
\<close>

definition persisted :: capabilities where
  "persisted = unavailable
     \<lparr>path_exists := True,
      chroma_open := Inr (Chroma 0),
      classify_chain := (\<lambda>h q. Inr \<lparr>category = lit ''question''\<rparr>),
      qa_chain := (\<lambda>h db q. Inr (lit ''an answer''))\<rparr>"

text \<open>
  The generation calls return their input: the given text, or five keywords ending in
  it.
\<close>

definition echo :: capabilities where
  "echo = unavailable
     \<lparr>abstract_chain := (\<lambda>h t. Inr t),
      keywords_chain :=
        (\<lambda>h t. Inr \<lparr>keywords' = [lit ''rag'', lit ''agents'', lit ''chunks'', lit ''retrieval'', t]\<rparr>)\<rparr>"



text \<open>The file cannot be opened and the exception's text quotes the path.\<close>

definition missing_file :: capabilities where
  "missing_file = unavailable
     \<lparr>fitz_open := (\<lambda>h p. Inl (Exception (lit ''no such file: '' @ p)))\<rparr>"

section \<open>Properties\<close>

lemma all_dropWhile: "(\<forall>x \<in> set (dropWhile P s). P x) \<longleftrightarrow> (\<forall>x \<in> set s. P x)"
  by (induction s) auto

lemma strip_empty_iff: "strip s = [] \<longleftrightarrow> (\<forall>c \<in> set s. isspace c)"
  by (simp add: strip_def all_dropWhile)

text \<open>\<open>join\<close> writes the separator before every element but the first.\<close>

lemma join_Cons: "join sep (k # ks) = k @ concat (map (\<lambda>x. sep @ x) ks)"
  by (induction ks arbitrary: k) simp_all

subsection \<open>Ingestion\<close>

text \<open>
  C4: when the text extracted from the file is empty or consists of whitespace only,
  \<open>ingest_document\<close> returns (it does not raise) the text result "The document is
  empty.", the instance (chunk list and index handle) is the one it was called on, and
  the only call made is the extraction.
\<close>

theorem ingest_document_empty_text:
  assumes "full_text w h file_path file_type = Some (Inr txt, h1)"
    and "\<forall>c \<in> set txt. isspace c"
  shows "ingest_document w h a file_path file_type =
           (Inr \<lparr>type = lit ''text'', message = lit ''The document is empty.''\<rparr>, a, h1)"
  using assms by (simp add: ingest_document_def ingest_try_def strip_empty_iff)

theorem ingest_document_empty_text_witness:
  "ingest_document blank_pdf [] \<lparr>vector_db = Some (Chroma 1), docs = [lit ''old chunk'']\<rparr>
     (lit ''paper.pdf'') (lit ''pdf'') =
   (Inr \<lparr>type = lit ''text'', message = lit ''The document is empty.''\<rparr>,
    \<lparr>vector_db = Some (Chroma 1), docs = [lit ''old chunk'']\<rparr>,
    [FitzOpen (lit ''paper.pdf'')])"
proof -
  have extracted: "full_text blank_pdf [] (lit ''paper.pdf'') (lit ''pdf'') =
      Some (Inr [32, 10, 160, 9], [FitzOpen (lit ''paper.pdf'')])"
    by (simp add: full_text_def blank_pdf_def unavailable_def)
  have blank: "\<forall>c \<in> set [32, 10, 160, 9::nat]. isspace c"
    by (simp add: isspace_def)
  show ?thesis
    by (rule ingest_document_empty_text [OF extracted blank])
qed

text \<open>
  C10: the claim is that \<open>ingest_document\<close> never raises. Here the file cannot be
  opened, the path holds a lone surrogate (U+DC80, as Python decodes an undecodable byte
  of a file name) and the exception's text quotes it: the handler's \<^verbatim>\<open>print\<close> of
  line 84 raises \<^verbatim>\<open>UnicodeEncodeError\<close>, nothing catches it, and \<open>ingest_document\<close>
  raises instead of returning its error dictionary.
\<close>

theorem ingest_document_print_raises:
  "ingest_document missing_file [] \<lparr>vector_db = None, docs = []\<rparr>
     (lit ''scan'' @ [56448] @ lit ''.pdf'') (lit ''pdf'') =
   (Inl (UnicodeEncodeError (lit ''surrogates not allowed'')),
    \<lparr>vector_db = None, docs = []\<rparr>,
    [FitzOpen (lit ''scan'' @ [56448] @ lit ''.pdf''),
     Print (lit ''Error during document ingestion: no such file: scan'' @ [56448] @ lit ''.pdf'')])"
  by (simp add: ingest_document_def ingest_try_def full_text_def missing_file_def
        unavailable_def utf8_stdout_def)

text \<open>
  Whenever the handler's line can be printed, the exception of the body does come back
  as a text result, and a body that raises nothing returns a text result as well.
\<close>

lemma ingest_document_handled:
  assumes "ingest_try w h a file_path file_type = (Inl e, a', h')"
    and "stdout w h' (lit ''Error during document ingestion: '' @ str e) = Inr u"
  shows "ingest_document w h a file_path file_type =
           (Inr \<lparr>type = lit ''text'', message = lit ''Error ingesting the document: '' @ str e\<rparr>,
            a', h' @ [Print (lit ''Error during document ingestion: '' @ str e)])"
  using assms by (simp add: ingest_document_def)

lemma ingest_try_text_result:
  assumes "ingest_try w h a file_path file_type = (Inr r, a', h')"
  shows "type r = lit ''text'' \<and> ingest_document w h a file_path file_type = (Inr r, a', h')"
  using assms
  by (auto simp: ingest_document_def ingest_try_def Let_def
           split: option.splits sum.splits prod.splits if_splits)

text \<open>
  C5: the claim is that a failed ingestion shows no partial update. Here the instance
  holds the chunk and the index of an old document, the new file is extracted and
  split, and the index cannot be built: \<open>ingest_document\<close> returns its error message
  with \<open>docs\<close> already the chunks of the new document (assigned on line 72) and
  \<open>vector_db\<close> still the index of the old one (line 77 raised before assigning).
\<close>

theorem ingest_document_index_failure:
  "ingest_document index_fails [] \<lparr>vector_db = Some (Chroma 1), docs = [lit ''old text'']\<rparr>
     (lit ''new.pdf'') (lit ''pdf'') =
   (Inr \<lparr>type = lit ''text'', message = lit ''Error ingesting the document: unavailable''\<rparr>,
    \<lparr>vector_db = Some (Chroma 1), docs = [lit ''new text'']\<rparr>,
    [FitzOpen (lit ''new.pdf''), CreateDocuments (lit ''new text''),
     ChromaFromDocuments [lit ''new text''],
     Print (lit ''Error during document ingestion: unavailable'')])"
  by (simp add: ingest_document_def ingest_try_def full_text_def index_fails_def
        unavailable_def utf8_stdout_def strip_def isspace_def)

text \<open>
  The three ways an ingestion ends. A failure of the index leaves the new chunks beside
  the old index, whatever the document; success replaces both fields; every earlier
  exit (unsupported type, extraction error, empty text, splitter error) leaves the
  instance as it was.
\<close>

lemma ingest_document_index_raises:
  assumes "full_text w h file_path file_type = Some (Inr txt, h1)"
    and "strip txt \<noteq> []"
    and "create_documents w h1 txt = Inr chunks"
    and "chroma_from_documents w (h1 @ [CreateDocuments txt]) chunks = Inl e"
    and "stdout w (h1 @ [CreateDocuments txt, ChromaFromDocuments chunks])
           (lit ''Error during document ingestion: '' @ str e) = Inr u"
  shows "ingest_document w h a file_path file_type =
           (Inr \<lparr>type = lit ''text'', message = lit ''Error ingesting the document: '' @ str e\<rparr>,
            a\<lparr>docs := chunks\<rparr>,
            h1 @ [CreateDocuments txt, ChromaFromDocuments chunks,
                  Print (lit ''Error during document ingestion: '' @ str e)])"
  using assms by (simp add: ingest_document_def ingest_try_def)

lemma ingest_document_success:
  assumes "full_text w h file_path file_type = Some (Inr txt, h1)"
    and "strip txt \<noteq> []"
    and "create_documents w h1 txt = Inr chunks"
    and "chroma_from_documents w (h1 @ [CreateDocuments txt]) chunks = Inr db"
  shows "ingest_document w h a file_path file_type =
           (Inr \<lparr>type = lit ''text'', message = lit ''Document ingested and ready for analysis.''\<rparr>,
            \<lparr>vector_db = Some db, docs = chunks\<rparr>,
            h1 @ [CreateDocuments txt, ChromaFromDocuments chunks])"
  using assms by (simp add: ingest_document_def ingest_try_def)

lemma ingest_document_early_failure:
  assumes "full_text w h file_path file_type = None \<or>
           (\<exists>e h1. full_text w h file_path file_type = Some (Inl e, h1)) \<or>
           (\<exists>txt h1. full_text w h file_path file_type = Some (Inr txt, h1) \<and>
              (strip txt = [] \<or> (\<exists>e. create_documents w h1 txt = Inl e)))"
  shows "fst (snd (ingest_document w h a file_path file_type)) = a"
  using assms by (auto simp: ingest_document_def ingest_try_def Let_def split: sum.splits)

subsection \<open>Query handling\<close>

text \<open>
  C1: the claim is that an error of the dispatched strategy reaches the caller of
  \<open>handle_query\<close>. Here the query is classified as a summary and the map-reduce chain
  raises: \<open>handle_query\<close> does not raise. The handler written for classification
  errors catches the exception, prints its line, runs \<open>answer_question\<close> and returns
  its answer.
\<close>

theorem handle_query_strategy_error:
  "handle_query summary_fails [] \<lparr>vector_db = Some (Chroma 1), docs = [lit ''chunk'']\<rparr>
     (lit ''summarize the paper'') =
   (Inr \<lparr>type = lit ''text'', message = lit ''an answer''\<rparr>,
    [ClassifyChain (lit ''summarize the paper''),
     SummarizeChain [lit ''chunk''],
     Print (lit ''Error classifying research query: generation failed. Defaulting to Q&A.''),
     QAChain (Chroma 1) (lit ''summarize the paper'')])"
  by (simp add: handle_query_def summary_fails_def unavailable_def utf8_stdout_def
        summarize_paper_def answer_question_def)

text \<open>
  The same holds for every instance with an index and every behaviour of the
  capabilities: when the summary chain raises and the handler's line is printed, the
  result of \<open>handle_query\<close> is that of \<open>answer_question\<close>.
\<close>

lemma handle_query_strategy_raises:
  assumes "vector_db a = Some db"
    and "classify_chain w h query = Inr query_type"
    and "category query_type = lit ''summary''"
    and "summarize_chain w (h @ [ClassifyChain query]) (docs a) = Inl e"
    and "stdout w (h @ [ClassifyChain query, SummarizeChain (docs a)])
           (lit ''Error classifying research query: '' @ str e @ lit ''. Defaulting to Q&A.'') =
         Inr u"
  shows "handle_query w h a query =
           answer_question w
             (h @ [ClassifyChain query, SummarizeChain (docs a),
                   Print (lit ''Error classifying research query: '' @ str e @
                          lit ''. Defaulting to Q&A.'')]) a query"
  using assms by (simp add: handle_query_def summarize_paper_def)

text \<open>
  C3 as stated: \<open>handle_query\<close> on a new instance, before any \<open>ingest_document\<close>,
  answers that no document is available and calls no capability. It fails when the
  directory of the vector store exists: the constructor reopens the store, and the query
  is classified and answered from it.
\<close>

theorem handle_query_before_ingest_counterexample:
  "init persisted = Inr \<lparr>vector_db = Some (Chroma 0), docs = []\<rparr> \<and>
   handle_query persisted [] \<lparr>vector_db = Some (Chroma 0), docs = []\<rparr> (lit ''what is it about'') =
     (Inr \<lparr>type = lit ''text'', message = lit ''an answer''\<rparr>,
      [ClassifyChain (lit ''what is it about''), QAChain (Chroma 0) (lit ''what is it about'')])"
  by (simp add: init_def handle_query_def answer_question_def persisted_def unavailable_def)

text \<open>
  C3, amended: on an instance built while no vector store is persisted, and before any
  \<open>ingest_document\<close>, \<open>handle_query\<close> returns for every query the text result "No
  document has been ingested yet." and makes no call.
\<close>

theorem handle_query_before_ingest:
  assumes "\<not> path_exists w" and "init w = Inr a"
  shows "handle_query w h a query =
           (Inr \<lparr>type = lit ''text'', message = lit ''No document has been ingested yet.''\<rparr>, h)"
  using assms by (auto simp: init_def handle_query_def split: sum.splits)

theorem handle_query_before_ingest_witness:
  "init unavailable = Inr \<lparr>vector_db = None, docs = []\<rparr> \<and>
   handle_query unavailable [] \<lparr>vector_db = None, docs = []\<rparr> (lit ''summarize the paper'') =
     (Inr \<lparr>type = lit ''text'', message = lit ''No document has been ingested yet.''\<rparr>, [])"
proof -
  have fresh: "\<not> path_exists unavailable"
    by (simp add: unavailable_def)
  have built: "init unavailable = Inr \<lparr>vector_db = None, docs = []\<rparr>"
    by (simp add: init_def unavailable_def)
  show ?thesis
    using built handle_query_before_ingest [OF fresh built] by simp
qed

subsection \<open>The analysis strategies\<close>

text \<open>
  C2 as stated: each of the four strategies, on an empty corpus, returns the text result
  "no document ingested" and calls nothing. It fails for \<open>answer_question\<close>, which never
  reads the chunk list: with an index handle and no chunks it runs the retrieval chain
  and returns its answer, and with neither chunks nor index it raises an
  \<^verbatim>\<open>AttributeError\<close> instead of returning a result.
\<close>

theorem strategies_empty_corpus_counterexample:
  "answer_question persisted [] \<lparr>vector_db = Some (Chroma 0), docs = []\<rparr> (lit ''what is it about'') =
     (Inr \<lparr>type = lit ''text'', message = lit ''an answer''\<rparr>,
      [QAChain (Chroma 0) (lit ''what is it about'')]) \<and>
   answer_question persisted [] \<lparr>vector_db = Some (Chroma 0), docs = []\<rparr> (lit ''what is it about'') \<noteq>
     (Inr \<lparr>type = lit ''text'', message = lit ''no document ingested''\<rparr>, []) \<and>
   answer_question persisted [] \<lparr>vector_db = None, docs = []\<rparr> (lit ''what is it about'') =
     (Inl (AttributeError
             ([39] @ lit ''NoneType'' @ [39] @ lit '' object has no attribute '' @
              [39] @ lit ''as_retriever'' @ [39])), [])"
  by (simp add: answer_question_def persisted_def unavailable_def)

text \<open>
  C2, amended: when the chunk list is empty, \<open>summarize_abstract\<close> and
  \<open>extract_keywords\<close> return the text result "No document content available." and make
  no call; \<open>answer_question\<close> does not depend on the chunk list and, given an index
  handle, makes exactly one call, the retrieval chain on that handle.
\<close>

theorem guarded_strategies_empty_docs:
  assumes "docs a = []"
  shows "summarize_abstract w h a =
           (Inr \<lparr>type = lit ''text'', message = lit ''No document content available.''\<rparr>, h) \<and>
         extract_keywords w h a =
           (Inr \<lparr>type = lit ''text'', message = lit ''No document content available.''\<rparr>, h) \<and>
         (\<forall>db. vector_db a = Some db \<longrightarrow>
            snd (answer_question w h a question) = h @ [QAChain db question])"
  using assms by (simp add: summarize_abstract_def extract_keywords_def answer_question_def)

theorem guarded_strategies_empty_docs_witness:
  "summarize_abstract echo [] \<lparr>vector_db = Some (Chroma 0), docs = []\<rparr> =
     (Inr \<lparr>type = lit ''text'', message = lit ''No document content available.''\<rparr>, []) \<and>
   extract_keywords echo [] \<lparr>vector_db = Some (Chroma 0), docs = []\<rparr> =
     (Inr \<lparr>type = lit ''text'', message = lit ''No document content available.''\<rparr>, []) \<and>
   snd (answer_question echo [] \<lparr>vector_db = Some (Chroma 0), docs = []\<rparr> (lit ''why'')) =
     [QAChain (Chroma 0) (lit ''why'')]"
  using guarded_strategies_empty_docs
    [of "\<lparr>vector_db = Some (Chroma 0), docs = []\<rparr>" echo "[]" "lit ''why''"]
  by simp

text \<open>
  \<open>summarize_paper\<close> has no such test either: on an empty chunk list it still invokes
  the map-reduce chain.
\<close>

lemma summarize_paper_empty_docs:
  assumes "docs a = []"
  shows "snd (summarize_paper w h a) = h @ [SummarizeChain []]"
  using assms by (simp add: summarize_paper_def)

text \<open>
  C9: on a non-empty chunk list \<open>summarize_abstract\<close> makes exactly one call, the
  generation chain on the text of the first chunk, and returns that chain's content as a
  text result (or raises its exception). Neither the other chunks nor the index handle
  take part, and no retrieval or indexing call is made.
\<close>

theorem summarize_abstract_first_chunk:
  assumes "docs a = page_content # rest"
  shows "summarize_abstract w h a =
           (case abstract_chain w h page_content of
              Inl e \<Rightarrow> Inl e
            | Inr content \<Rightarrow> Inr \<lparr>type = lit ''text'', message = content\<rparr>,
            h @ [AbstractChain page_content])"
  using assms by (simp add: summarize_abstract_def)

theorem summarize_abstract_first_chunk_witness:
  "summarize_abstract echo []
     \<lparr>vector_db = Some (Chroma 1),
      docs = [lit ''ABSTRACT: lorem ipsum'', lit ''body'', lit ''references'']\<rparr> =
   (Inr \<lparr>type = lit ''text'', message = lit ''ABSTRACT: lorem ipsum''\<rparr>,
    [AbstractChain (lit ''ABSTRACT: lorem ipsum'')])"
  using summarize_abstract_first_chunk
    [of "\<lparr>vector_db = Some (Chroma 1),
          docs = [lit ''ABSTRACT: lorem ipsum'', lit ''body'', lit ''references'']\<rparr>"
        "lit ''ABSTRACT: lorem ipsum''" "[lit ''body'', lit ''references'']" echo "[]"]
  by (simp add: echo_def unavailable_def)

text \<open>
  C8: on a chunk list of at least five chunks \<open>extract_keywords\<close> makes exactly one
  call, the keyword chain on chunks 0 to 3 joined by single spaces (chunk 4 and the
  chunks after it do not occur in the argument). It returns as a text result the
  chain's keyword list written as one string: the first keyword, then every further
  keyword preceded by a comma and a space (or it raises the chain's exception).
\<close>

theorem extract_keywords_first_four:
  assumes "docs a = c0 # c1 # c2 # c3 # c4 # rest"
  shows "extract_keywords w h a =
           (case keywords_chain w h (c0 @ lit '' '' @ c1 @ lit '' '' @ c2 @ lit '' '' @ c3) of
              Inl e \<Rightarrow> Inl e
            | Inr result \<Rightarrow>
                Inr \<lparr>type = lit ''text'',
                     message =
                       (case keywords' result of
                          [] \<Rightarrow> []
                        | k # ks \<Rightarrow> k @ concat (map (\<lambda>x. lit '', '' @ x) ks))\<rparr>,
            h @ [KeywordsChain (c0 @ lit '' '' @ c1 @ lit '' '' @ c2 @ lit '' '' @ c3)])"
proof -
  have rendered: "join (lit '', '') xs =
      (case xs of [] \<Rightarrow> [] | k # ks \<Rightarrow> k @ concat (map (\<lambda>x. lit '', '' @ x) ks))" for xs
    by (cases xs) (simp_all only: list.case join.simps(1) join_Cons)
  have joined: "join (lit '' '') (take 4 (docs a)) =
      c0 @ lit '' '' @ c1 @ lit '' '' @ c2 @ lit '' '' @ c3"
    using assms by simp
  have "docs a \<noteq> []"
    using assms by simp
  then show ?thesis
    unfolding extract_keywords_def Let_def joined rendered by simp
qed

theorem extract_keywords_first_four_witness:
  "extract_keywords echo []
     \<lparr>vector_db = Some (Chroma 1),
      docs = [lit ''a'', lit ''b'', lit ''c'', lit ''d'', lit ''e'', lit ''f'']\<rparr> =
   (Inr \<lparr>type = lit ''text'', message = lit ''rag, agents, chunks, retrieval, a b c d''\<rparr>,
    [KeywordsChain (lit ''a b c d'')])"
  using extract_keywords_first_four
    [of "\<lparr>vector_db = Some (Chroma 1),
          docs = [lit ''a'', lit ''b'', lit ''c'', lit ''d'', lit ''e'', lit ''f'']\<rparr>"
        "lit ''a''" "lit ''b''" "lit ''c''" "lit ''d''" "lit ''e''" "[lit ''f'']" echo "[]"]
  by (simp add: echo_def unavailable_def)

subsection \<open>Routing\<close>




text \<open>
  A line of the \<^verbatim>\<open>try\<close> that cannot be printed is handled like a failure of the
  chain: the answer of the chain is dropped and the label is "research".
\<close>

lemma route_query_log_fails:
  assumes "route_chain w h query = Inr response"
    and "stdout w (h @ [RouteChain query]) (lit ''[OrchestrationAgent] Query: '' @ query) = Inl e"
    and "stdout w (h @ [RouteChain query, Print (lit ''[OrchestrationAgent] Query: '' @ query)])
           (lit ''Error routing query: '' @ str e) = Inr u"
  shows "fst (route_query w h query) = Inr (lit ''research'')"
  using assms by (simp add: route_query_def route_try_def)

end
